theory Spec2Isabelle
  imports Main
begin

section \<open>Python values and errors\<close>

text \<open>
  The exceptions the modelled code raises. Every raise of the source is an \<open>Inl\<close>
  branch of the model; a result is \<open>Inr\<close>.
\<close>

datatype error =
    ValueError
  | KeyError
  | TypeError
  | IndexError
  | NameError
  | RuntimeError
  | AssertionError
  | IOError
  | SystemExit int

text \<open>
  What a Python call hands to \<open>while not ...\<close>: \<open>True\<close>, \<open>False\<close>, or
  \<open>None\<close> when the body ends without a \<open>return\<close>.
\<close>

datatype pyresult = PyTrue | PyFalse | PyNone

fun truthy :: "pyresult \<Rightarrow> bool" where
  "truthy PyTrue = True"
| "truthy PyFalse = False"
| "truthy PyNone = False"

section \<open>JSON values (what \<open>json.loads\<close> hands to \<open>from_json\<close>)\<close>

text \<open>
  A JSON tree as Python's \<open>json\<close> module reads it: \<open>null\<close>, booleans, integers,
  strings, arrays (Python lists) and objects (Python dicts, here association lists).
  Numbers with a fraction are outside the model. An attribute of an event holds such a
  value, an \<open>int\<close>, or a tuple of such values (a HOL list or pair).
\<close>

datatype json =
    JNull
  | JBool bool
  | JInt int
  | JStr string
  | JArr "json list"
  | JObj "(string \<times> json) list"

text \<open>The dictionary \<open>json_hash\<close>: keys are strings.\<close>

type_synonym json_hash = "string \<rightharpoonup> json"

definition bind_err :: "error + 'a \<Rightarrow> ('a \<Rightarrow> error + 'b) \<Rightarrow> error + 'b" where
  "bind_err m f = (case m of Inl e \<Rightarrow> Inl e | Inr x \<Rightarrow> f x)"

text \<open>
  \<open>int(x)\<close> on a JSON value. \<open>json.loads\<close> reads a string as \<open>unicode\<close>; a
  \<open>char\<close> here is a code point below 256, and strings with higher code points are
  outside the model. A string is read as a decimal numeral with an optional sign,
  surrounding white space ignored, where white space is what \<open>unicode.isspace\<close> accepts
  in that range (the ASCII six, the separators \<open>0x1C\<close> to \<open>0x1F\<close>, \<open>0x85\<close> and
  \<open>0xA0\<close>) and the decimal digits in that range are the ASCII ones. Anything else in a
  string is a \<open>ValueError\<close>, and \<open>None\<close>, lists and dicts are a \<open>TypeError\<close>.
\<close>

definition is_space :: "char \<Rightarrow> bool" where
  "is_space c \<longleftrightarrow>
     c \<in> set [CHR 0x20, CHR 0x09, CHR 0x0A, CHR 0x0B, CHR 0x0C, CHR 0x0D,
                CHR 0x1C, CHR 0x1D, CHR 0x1E, CHR 0x1F, CHR 0x85, CHR 0xA0]"

definition strip :: "string \<Rightarrow> string" where
  "strip s = rev (dropWhile is_space (rev (dropWhile is_space s)))"

definition digit_val :: "char \<Rightarrow> nat option" where
  "digit_val c =
     (if c \<in> set ''0123456789'' then Some (length (takeWhile (\<lambda>d. d \<noteq> c) ''0123456789''))
      else None)"

fun digits_to_nat :: "string \<Rightarrow> nat \<Rightarrow> nat option" where
  "digits_to_nat [] acc = Some acc"
| "digits_to_nat (c # cs) acc =
     (case digit_val c of None \<Rightarrow> None | Some d \<Rightarrow> digits_to_nat cs (10 * acc + d))"

definition parse_digits :: "string \<Rightarrow> nat option" where
  "parse_digits ds = (if ds = [] then None else digits_to_nat ds 0)"

definition parse_int :: "string \<Rightarrow> int option" where
  "parse_int s =
     (case strip s of
        [] \<Rightarrow> None
      | c # cs \<Rightarrow>
          if c = CHR ''-'' then map_option (\<lambda>n. - int n) (parse_digits cs)
          else if c = CHR ''+'' then map_option int (parse_digits cs)
          else map_option int (parse_digits (c # cs)))"

fun py_int :: "json \<Rightarrow> error + int" where
  "py_int (JInt n) = Inr n"
| "py_int (JBool b) = Inr (if b then 1 else 0)"
| "py_int (JStr s) = (case parse_int s of None \<Rightarrow> Inl ValueError | Some n \<Rightarrow> Inr n)"
| "py_int JNull = Inl TypeError"
| "py_int (JArr xs) = Inl TypeError"
| "py_int (JObj kvs) = Inl TypeError"

text \<open>
  \<open>x[i]\<close> for a literal index \<open>i\<close>: a list or string is indexed (\<open>IndexError\<close>
  when too short), a dict has no integer key (\<open>KeyError\<close>), other values are not
  subscriptable.
\<close>

fun py_index :: "json \<Rightarrow> nat \<Rightarrow> error + json" where
  "py_index (JArr xs) i = (if i < length xs then Inr (xs ! i) else Inl IndexError)"
| "py_index (JStr s) i = (if i < length s then Inr (JStr [s ! i]) else Inl IndexError)"
| "py_index (JObj kvs) i = Inl KeyError"
| "py_index JNull i = Inl TypeError"
| "py_index (JBool b) i = Inl TypeError"
| "py_index (JInt n) i = Inl TypeError"

text \<open>\<open>tuple(x)\<close>: the elements of a list, the characters of a string, the keys of a dict.\<close>

fun py_tuple :: "json \<Rightarrow> error + json list" where
  "py_tuple (JArr xs) = Inr xs"
| "py_tuple (JStr s) = Inr (map (\<lambda>c. JStr [c]) s)"
| "py_tuple (JObj kvs) = Inr (map (\<lambda>kv. JStr (fst kv)) kvs)"
| "py_tuple JNull = Inl TypeError"
| "py_tuple (JBool b) = Inl TypeError"
| "py_tuple (JInt n) = Inl TypeError"

text \<open>\<open>str(n)\<close> for a counter value.\<close>

fun show_nat :: "nat \<Rightarrow> string" where
  "show_nat n =
     (if n < 10 then [''0123456789'' ! n]
      else show_nat (n div 10) @ [''0123456789'' ! (n mod 10)])"

section \<open>Events (sts/replay_event.py)\<close>

text \<open>
  One constructor per concrete event class, holding the attributes the class's
  \<open>__init__\<close> stores beside \<open>label\<close>, \<open>time\<close> and \<open>dependent_labels\<close>:
  an \<open>int\<close> where \<open>from_json\<close> converts with \<open>int(...)\<close>, a tuple where it builds
  one, and the JSON value itself where it passes the value through. \<open>invariant_check\<close>
  is a method of \<open>InvariantChecker\<close>, held by its name.

  Modelled from the spec: the fingerprint classes \<open>DPFingerprint\<close> and
  \<open>OFFingerprint\<close> are outside these sources; the spec gives a fingerprint as an
  opaque tuple, so the attribute holds the value the fingerprint is built from.
\<close>

datatype event_attrs =
    SwitchFailure int
  | SwitchRecovery int
  | LinkFailure int int int int
  | LinkRecovery int int int int
  | ControllerFailure "json \<times> int"
  | ControllerRecovery "json \<times> int"
  | HostMigration int int int int
  | PolicyChange json
  | TrafficInjection
  | WaitTime json
  | CheckInvariants json string
  | ControlChannelBlock json "json list"
  | ControlChannelUnblock json "json list"
  | DataplaneDrop json
  | DataplanePermit json
  | ControlMessageReceive json "json list" json
  | ControllerStateChange "json list" json json json
  | DeterministicValue

text \<open>\<open>time\<close> is a \<open>SyncTime(seconds, microSeconds)\<close> tuple.\<close>

type_synonym sync_time = "json \<times> json"

record event =
  label :: json
  time :: sync_time
  dependent_labels :: "json list"
  attrs :: event_attrs

text \<open>\<open>self.__class__.__name__\<close>.\<close>

fun class_name :: "event_attrs \<Rightarrow> string" where
  "class_name (SwitchFailure _) = ''SwitchFailure''"
| "class_name (SwitchRecovery _) = ''SwitchRecovery''"
| "class_name (LinkFailure _ _ _ _) = ''LinkFailure''"
| "class_name (LinkRecovery _ _ _ _) = ''LinkRecovery''"
| "class_name (ControllerFailure _) = ''ControllerFailure''"
| "class_name (ControllerRecovery _) = ''ControllerRecovery''"
| "class_name (HostMigration _ _ _ _) = ''HostMigration''"
| "class_name (PolicyChange _) = ''PolicyChange''"
| "class_name TrafficInjection = ''TrafficInjection''"
| "class_name (WaitTime _) = ''WaitTime''"
| "class_name (CheckInvariants _ _) = ''CheckInvariants''"
| "class_name (ControlChannelBlock _ _) = ''ControlChannelBlock''"
| "class_name (ControlChannelUnblock _ _) = ''ControlChannelUnblock''"
| "class_name (DataplaneDrop _) = ''DataplaneDrop''"
| "class_name (DataplanePermit _) = ''DataplanePermit''"
| "class_name (ControlMessageReceive _ _ _) = ''ControlMessageReceive''"
| "class_name (ControllerStateChange _ _ _ _) = ''ControllerStateChange''"
| "class_name DeterministicValue = ''DeterministicValue''"

text \<open>
  \<open>isinstance(e, InputEvent)\<close>, by the class statements: the two control-channel
  classes derive from \<open>InternalEvent\<close> (although \<open>all_input_events\<close> lists them).
\<close>

fun is_InputEvent :: "event_attrs \<Rightarrow> bool" where
  "is_InputEvent (SwitchFailure _) = True"
| "is_InputEvent (SwitchRecovery _) = True"
| "is_InputEvent (LinkFailure _ _ _ _) = True"
| "is_InputEvent (LinkRecovery _ _ _ _) = True"
| "is_InputEvent (ControllerFailure _) = True"
| "is_InputEvent (ControllerRecovery _) = True"
| "is_InputEvent (HostMigration _ _ _ _) = True"
| "is_InputEvent (PolicyChange _) = True"
| "is_InputEvent TrafficInjection = True"
| "is_InputEvent (WaitTime _) = True"
| "is_InputEvent (CheckInvariants _ _) = True"
| "is_InputEvent _ = False"

text \<open>\<open>type(e) in EventDag._recovery_types\<close>.\<close>

fun is_recovery_type :: "event_attrs \<Rightarrow> bool" where
  "is_recovery_type (SwitchRecovery _) = True"
| "is_recovery_type (LinkRecovery _ _ _ _) = True"
| "is_recovery_type (ControllerRecovery _) = True"
| "is_recovery_type (ControlChannelUnblock _ _) = True"
| "is_recovery_type _ = False"

text \<open>
  \<open>Event.__init__\<close>, reached through each class's \<open>__init__\<close>. A label of \<open>None\<close>
  (JSON \<open>null\<close>) is replaced by \<open>'e'\<close> and the next value of the class-wide counter
  \<open>_label_gen\<close>, which is threaded as \<open>gen\<close>. The concrete classes pass no
  \<open>dependent_labels\<close>, so the list starts empty. \<open>from_json\<close> always passes a time.
\<close>

definition Event_init :: "nat \<Rightarrow> json \<Rightarrow> sync_time \<Rightarrow> event_attrs \<Rightarrow> event \<times> nat" where
  "Event_init gen lbl tm a =
     (if lbl = JNull
      then (\<lparr> label = JStr (''e'' @ show_nat gen), time = tm, dependent_labels = [],
               attrs = a \<rparr>, gen + 1)
      else (\<lparr> label = lbl, time = tm, dependent_labels = [], attrs = a \<rparr>, gen))"

subsection \<open>to_json\<close>

text \<open>
  \<open>Event.to_json\<close> followed by \<open>json.loads\<close>: the dictionary a reader of the line gets
  back. \<open>fields\<close> is a copy of \<open>__dict__\<close> plus \<open>class\<close>; \<open>json.dumps\<close> writes a
  tuple as an array, and raises \<open>TypeError\<close> on the function object a
  \<open>CheckInvariants\<close> event holds in \<open>invariant_check\<close>.
\<close>

definition jint4 :: "string \<Rightarrow> string \<Rightarrow> string \<Rightarrow> string \<Rightarrow> int \<Rightarrow> int \<Rightarrow> int \<Rightarrow> int
    \<Rightarrow> json_hash \<Rightarrow> json_hash" where
  "jint4 k1 k2 k3 k4 a b c d h = h(k1 \<mapsto> JInt a, k2 \<mapsto> JInt b, k3 \<mapsto> JInt c, k4 \<mapsto> JInt d)"

fun attr_fields :: "event_attrs \<Rightarrow> json_hash \<Rightarrow> error + json_hash" where
  "attr_fields (SwitchFailure dpid) h = Inr (h(''dpid'' \<mapsto> JInt dpid))"
| "attr_fields (SwitchRecovery dpid) h = Inr (h(''dpid'' \<mapsto> JInt dpid))"
| "attr_fields (LinkFailure a b c d) h =
     Inr (jint4 ''start_dpid'' ''start_port_no'' ''end_dpid'' ''end_port_no'' a b c d h)"
| "attr_fields (LinkRecovery a b c d) h =
     Inr (jint4 ''start_dpid'' ''start_port_no'' ''end_dpid'' ''end_port_no'' a b c d h)"
| "attr_fields (ControllerFailure cid) h =
     Inr (h(''controller_id'' \<mapsto> JArr [fst cid, JInt (snd cid)]))"
| "attr_fields (ControllerRecovery cid) h =
     Inr (h(''controller_id'' \<mapsto> JArr [fst cid, JInt (snd cid)]))"
| "attr_fields (HostMigration a b c d) h =
     Inr (jint4 ''old_ingress_dpid'' ''old_ingress_port_no''
                ''new_ingress_dpid'' ''new_ingress_port_no'' a b c d h)"
| "attr_fields (PolicyChange request_type) h = Inr (h(''request_type'' \<mapsto> request_type))"
| "attr_fields TrafficInjection h = Inr h"
| "attr_fields (WaitTime wait_time) h = Inr (h(''wait_time'' \<mapsto> wait_time))"
| "attr_fields (CheckInvariants fail_on_error invariant_check) h = Inl TypeError"
| "attr_fields (ControlChannelBlock dpid cid) h =
     Inr (h(''dpid'' \<mapsto> dpid, ''controller_id'' \<mapsto> JArr cid))"
| "attr_fields (ControlChannelUnblock dpid cid) h =
     Inr (h(''dpid'' \<mapsto> dpid, ''controller_id'' \<mapsto> JArr cid))"
| "attr_fields (DataplaneDrop fingerprint) h = Inr (h(''fingerprint'' \<mapsto> fingerprint))"
| "attr_fields (DataplanePermit fingerprint) h = Inr (h(''fingerprint'' \<mapsto> fingerprint))"
| "attr_fields (ControlMessageReceive dpid cid fingerprint) h =
     Inr (h(''dpid'' \<mapsto> dpid, ''controller_id'' \<mapsto> JArr cid, ''fingerprint'' \<mapsto> fingerprint))"
| "attr_fields (ControllerStateChange cid fingerprint name val) h =
     Inr (h(''controller_id'' \<mapsto> JArr cid, ''fingerprint'' \<mapsto> fingerprint,
           ''name'' \<mapsto> name, ''value'' \<mapsto> val))"
| "attr_fields DeterministicValue h = Inr h"

definition to_json :: "event \<Rightarrow> error + json_hash" where
  "to_json e =
     bind_err
       (attr_fields (attrs e)
          (Map.empty(''label'' \<mapsto> label e,
                     ''time'' \<mapsto> JArr [fst (time e), snd (time e)],
                     ''dependent_labels'' \<mapsto> JArr (dependent_labels e))))
       (\<lambda>flds. Inr (flds(''class'' \<mapsto> JStr (class_name (attrs e)))))"

subsection \<open>from_json\<close>

text \<open>
  \<open>assert_fields_exist(json_hash, *args)\<close>. Its first argument is a dictionary in most
  calls; \<open>ControllerFailure.from_json\<close> and \<open>ControllerRecovery.from_json\<close> call it
  as \<open>assert_fields_exist('controller_id')\<close>, where the first argument is the string
  and \<open>args\<close> is empty. \<open>field not in json_hash\<close> is a key test on a dictionary and a
  substring test on a string.
\<close>

datatype container = DictArg json_hash | StrArg string

fun contains :: "string \<Rightarrow> string \<Rightarrow> bool" where
  "contains [] f = (f = [])"
| "contains (c # cs) f = (take (length f) (c # cs) = f \<or> contains cs f)"

fun py_in :: "string \<Rightarrow> container \<Rightarrow> bool" where
  "py_in field (DictArg h) = (h field \<noteq> None)"
| "py_in field (StrArg s) = contains s field"

fun assert_fields_exist :: "container \<Rightarrow> string list \<Rightarrow> error + unit" where
  "assert_fields_exist json_hash [] = Inr ()"
| "assert_fields_exist json_hash (field # args) =
     (if \<not> py_in field json_hash then Inl ValueError
      else assert_fields_exist json_hash args)"

text \<open>\<open>json_hash[key]\<close>.\<close>

definition getitem :: "json_hash \<Rightarrow> string \<Rightarrow> error + json" where
  "getitem json_hash k = (case json_hash k of None \<Rightarrow> Inl KeyError | Some v \<Rightarrow> Inr v)"

definition extract_label_time :: "json_hash \<Rightarrow> error + (json \<times> sync_time)" where
  "extract_label_time json_hash =
     bind_err (assert_fields_exist (DictArg json_hash) [''label'', ''time'']) (\<lambda>_.
     bind_err (getitem json_hash ''label'') (\<lambda>lbl.
     bind_err (getitem json_hash ''time'') (\<lambda>t.
     bind_err (py_index t 0) (\<lambda>t0.
     bind_err (py_index t 1) (\<lambda>t1.
       Inr (lbl, (t0, t1)))))))"

text \<open>\<open>int(json_hash[key])\<close>.\<close>

definition get_int :: "json_hash \<Rightarrow> string \<Rightarrow> error + int" where
  "get_int json_hash k = bind_err (getitem json_hash k) py_int"

text \<open>
  The static \<open>from_json\<close> of each class. Each takes the label counter and returns the
  event built and the counter after \<open>Event.__init__\<close>. The statements run in the
  source's order, so the first failing one decides the error.
\<close>

definition construct :: "nat \<Rightarrow> json \<times> sync_time \<Rightarrow> event_attrs \<Rightarrow> error + (event \<times> nat)" where
  "construct gen lt a = Inr (Event_init gen (fst lt) (snd lt) a)"

definition SwitchFailure_from_json :: "nat \<Rightarrow> json_hash \<Rightarrow> error + (event \<times> nat)" where
  "SwitchFailure_from_json gen json_hash =
     bind_err (extract_label_time json_hash) (\<lambda>lt.
     bind_err (assert_fields_exist (DictArg json_hash) [''dpid'']) (\<lambda>_.
     bind_err (get_int json_hash ''dpid'') (\<lambda>dpid.
       construct gen lt (SwitchFailure dpid))))"

definition SwitchRecovery_from_json :: "nat \<Rightarrow> json_hash \<Rightarrow> error + (event \<times> nat)" where
  "SwitchRecovery_from_json gen json_hash =
     bind_err (extract_label_time json_hash) (\<lambda>lt.
     bind_err (assert_fields_exist (DictArg json_hash) [''dpid'']) (\<lambda>_.
     bind_err (get_int json_hash ''dpid'') (\<lambda>dpid.
       construct gen lt (SwitchRecovery dpid))))"

definition link_fields :: "json_hash \<Rightarrow> error + (int \<times> int \<times> int \<times> int)" where
  "link_fields json_hash =
     bind_err (assert_fields_exist (DictArg json_hash)
                 [''start_dpid'', ''start_port_no'', ''end_dpid'', ''end_port_no'']) (\<lambda>_.
     bind_err (get_int json_hash ''start_dpid'') (\<lambda>start_dpid.
     bind_err (get_int json_hash ''start_port_no'') (\<lambda>start_port_no.
     bind_err (get_int json_hash ''end_dpid'') (\<lambda>end_dpid.
     bind_err (get_int json_hash ''end_port_no'') (\<lambda>end_port_no.
       Inr (start_dpid, start_port_no, end_dpid, end_port_no))))))"

definition LinkFailure_from_json :: "nat \<Rightarrow> json_hash \<Rightarrow> error + (event \<times> nat)" where
  "LinkFailure_from_json gen json_hash =
     bind_err (extract_label_time json_hash) (\<lambda>lt.
     bind_err (link_fields json_hash) (\<lambda>(a, b, c, d).
       construct gen lt (LinkFailure a b c d)))"

definition LinkRecovery_from_json :: "nat \<Rightarrow> json_hash \<Rightarrow> error + (event \<times> nat)" where
  "LinkRecovery_from_json gen json_hash =
     bind_err (extract_label_time json_hash) (\<lambda>lt.
     bind_err (link_fields json_hash) (\<lambda>(a, b, c, d).
       construct gen lt (LinkRecovery a b c d)))"

text \<open>
  The two controller classes. The field check is the call
  \<open>assert_fields_exist('controller_id')\<close> (no dictionary, no field names), so a missing
  key surfaces in \<open>json_hash['controller_id']\<close> as a \<open>KeyError\<close>. Both bodies end in
  \<open>return ControllerFailure(controller_id, label=label, time=time)\<close>.
\<close>

definition controller_id_pair :: "json_hash \<Rightarrow> error + (json \<times> int)" where
  "controller_id_pair json_hash =
     bind_err (assert_fields_exist (StrArg ''controller_id'') []) (\<lambda>_.
     bind_err (getitem json_hash ''controller_id'') (\<lambda>controller_id.
     bind_err (py_index controller_id 0) (\<lambda>c0.
     bind_err (py_index controller_id 1) (\<lambda>c1.
     bind_err (py_int c1) (\<lambda>port.
       Inr (c0, port))))))"

definition ControllerFailure_from_json :: "nat \<Rightarrow> json_hash \<Rightarrow> error + (event \<times> nat)" where
  "ControllerFailure_from_json gen json_hash =
     bind_err (extract_label_time json_hash) (\<lambda>lt.
     bind_err (controller_id_pair json_hash) (\<lambda>controller_id.
       construct gen lt (ControllerFailure controller_id)))"

definition ControllerRecovery_from_json :: "nat \<Rightarrow> json_hash \<Rightarrow> error + (event \<times> nat)" where
  "ControllerRecovery_from_json gen json_hash =
     bind_err (extract_label_time json_hash) (\<lambda>lt.
     bind_err (controller_id_pair json_hash) (\<lambda>controller_id.
       construct gen lt (ControllerFailure controller_id)))"

definition HostMigration_from_json :: "nat \<Rightarrow> json_hash \<Rightarrow> error + (event \<times> nat)" where
  "HostMigration_from_json gen json_hash =
     bind_err (extract_label_time json_hash) (\<lambda>lt.
     bind_err (assert_fields_exist (DictArg json_hash)
                 [''old_ingress_dpid'', ''old_ingress_port_no'',
                  ''new_ingress_dpid'', ''new_ingress_port_no'']) (\<lambda>_.
     bind_err (get_int json_hash ''old_ingress_dpid'') (\<lambda>old_ingress_dpid.
     bind_err (get_int json_hash ''old_ingress_port_no'') (\<lambda>old_ingress_port_no.
     bind_err (get_int json_hash ''new_ingress_dpid'') (\<lambda>new_ingress_dpid.
     bind_err (get_int json_hash ''new_ingress_port_no'') (\<lambda>new_ingress_port_no.
       construct gen lt
         (HostMigration old_ingress_dpid old_ingress_port_no
                        new_ingress_dpid new_ingress_port_no)))))))"

definition PolicyChange_from_json :: "nat \<Rightarrow> json_hash \<Rightarrow> error + (event \<times> nat)" where
  "PolicyChange_from_json gen json_hash =
     bind_err (extract_label_time json_hash) (\<lambda>lt.
     bind_err (assert_fields_exist (DictArg json_hash) [''request_type'']) (\<lambda>_.
     bind_err (getitem json_hash ''request_type'') (\<lambda>request_type.
       construct gen lt (PolicyChange request_type))))"

definition TrafficInjection_from_json :: "nat \<Rightarrow> json_hash \<Rightarrow> error + (event \<times> nat)" where
  "TrafficInjection_from_json gen json_hash =
     bind_err (extract_label_time json_hash) (\<lambda>lt.
       construct gen lt TrafficInjection)"

definition WaitTime_from_json :: "nat \<Rightarrow> json_hash \<Rightarrow> error + (event \<times> nat)" where
  "WaitTime_from_json gen json_hash =
     bind_err (extract_label_time json_hash) (\<lambda>lt.
     bind_err (assert_fields_exist (DictArg json_hash) [''wait_time'']) (\<lambda>_.
     bind_err (getitem json_hash ''wait_time'') (\<lambda>wait_time.
       construct gen lt (WaitTime wait_time))))"

text \<open>
  \<open>CheckInvariants.from_json\<close> looks the method name up in
  \<open>InvariantChecker.__dict__\<close>, a class outside these sources: its names are the
  parameter \<open>checker_dict\<close>. A list or dict as the name cannot be hashed
  (\<open>TypeError\<close>); any other value that is not a name of the class is a
  \<open>ValueError\<close>.
\<close>

definition lookup_invariant_check :: "string list \<Rightarrow> json \<Rightarrow> error + string" where
  "lookup_invariant_check checker_dict method_name =
     (case method_name of
        JStr m \<Rightarrow> if m \<in> set checker_dict then Inr m else Inl ValueError
      | JArr _ \<Rightarrow> Inl TypeError
      | JObj _ \<Rightarrow> Inl TypeError
      | _ \<Rightarrow> Inl ValueError)"

definition CheckInvariants_from_json ::
  "string list \<Rightarrow> nat \<Rightarrow> json_hash \<Rightarrow> error + (event \<times> nat)" where
  "CheckInvariants_from_json checker_dict gen json_hash =
     bind_err (extract_label_time json_hash) (\<lambda>lt.
       let fail_on_error =
             (case json_hash ''fail_on_error'' of None \<Rightarrow> JBool False | Some v \<Rightarrow> v)
       in bind_err
            (case json_hash ''invariant_check'' of
               None \<Rightarrow> Inr ''check_correspondence''
             | Some method_name \<Rightarrow> lookup_invariant_check checker_dict method_name)
            (\<lambda>invariant_check.
               construct gen lt (CheckInvariants fail_on_error invariant_check)))"

definition channel_fields :: "json_hash \<Rightarrow> error + (json \<times> json list)" where
  "channel_fields json_hash =
     bind_err (assert_fields_exist (DictArg json_hash) [''dpid'', ''controller_id'']) (\<lambda>_.
     bind_err (getitem json_hash ''dpid'') (\<lambda>dpid.
     bind_err (getitem json_hash ''controller_id'') (\<lambda>c.
     bind_err (py_tuple c) (\<lambda>controller_id.
       Inr (dpid, controller_id)))))"

definition ControlChannelBlock_from_json :: "nat \<Rightarrow> json_hash \<Rightarrow> error + (event \<times> nat)" where
  "ControlChannelBlock_from_json gen json_hash =
     bind_err (extract_label_time json_hash) (\<lambda>lt.
     bind_err (channel_fields json_hash) (\<lambda>(dpid, controller_id).
       construct gen lt (ControlChannelBlock dpid controller_id)))"

definition ControlChannelUnblock_from_json :: "nat \<Rightarrow> json_hash \<Rightarrow> error + (event \<times> nat)" where
  "ControlChannelUnblock_from_json gen json_hash =
     bind_err (extract_label_time json_hash) (\<lambda>lt.
     bind_err (channel_fields json_hash) (\<lambda>(dpid, controller_id).
       construct gen lt (ControlChannelUnblock dpid controller_id)))"

definition DataplaneDrop_from_json :: "nat \<Rightarrow> json_hash \<Rightarrow> error + (event \<times> nat)" where
  "DataplaneDrop_from_json gen json_hash =
     bind_err (extract_label_time json_hash) (\<lambda>lt.
     bind_err (assert_fields_exist (DictArg json_hash) [''fingerprint'']) (\<lambda>_.
     bind_err (getitem json_hash ''fingerprint'') (\<lambda>fingerprint.
       construct gen lt (DataplaneDrop fingerprint))))"

definition DataplanePermit_from_json :: "nat \<Rightarrow> json_hash \<Rightarrow> error + (event \<times> nat)" where
  "DataplanePermit_from_json gen json_hash =
     bind_err (extract_label_time json_hash) (\<lambda>lt.
     bind_err (assert_fields_exist (DictArg json_hash) [''fingerprint'']) (\<lambda>_.
     bind_err (getitem json_hash ''fingerprint'') (\<lambda>fingerprint.
       construct gen lt (DataplanePermit fingerprint))))"

definition ControlMessageReceive_from_json :: "nat \<Rightarrow> json_hash \<Rightarrow> error + (event \<times> nat)" where
  "ControlMessageReceive_from_json gen json_hash =
     bind_err (extract_label_time json_hash) (\<lambda>lt.
     bind_err (assert_fields_exist (DictArg json_hash)
                 [''dpid'', ''controller_id'', ''fingerprint'']) (\<lambda>_.
     bind_err (getitem json_hash ''dpid'') (\<lambda>dpid.
     bind_err (getitem json_hash ''controller_id'') (\<lambda>c.
     bind_err (py_tuple c) (\<lambda>controller_id.
     bind_err (getitem json_hash ''fingerprint'') (\<lambda>fingerprint.
       construct gen lt (ControlMessageReceive dpid controller_id fingerprint)))))))"

text \<open>
  \<open>ControllerStateChange.from_json\<close> asserts five fields, \<open>dpid\<close> first; the
  constructor takes four and never reads \<open>dpid\<close>.
\<close>

definition ControllerStateChange_from_json :: "nat \<Rightarrow> json_hash \<Rightarrow> error + (event \<times> nat)" where
  "ControllerStateChange_from_json gen json_hash =
     bind_err (extract_label_time json_hash) (\<lambda>lt.
     bind_err (assert_fields_exist (DictArg json_hash)
                 [''dpid'', ''controller_id'', ''fingerprint'', ''name'', ''value'']) (\<lambda>_.
     bind_err (getitem json_hash ''controller_id'') (\<lambda>c.
     bind_err (py_tuple c) (\<lambda>controller_id.
     bind_err (getitem json_hash ''fingerprint'') (\<lambda>fingerprint.
     bind_err (getitem json_hash ''name'') (\<lambda>name.
     bind_err (getitem json_hash ''value'') (\<lambda>val.
       construct gen lt (ControllerStateChange controller_id fingerprint name val))))))))"

section \<open>The intercepted connection (sts/entities.py, DeferredOFConnection)\<close>

text \<open>
  A callable (the switch's message handler) is known by an identity. What the connection
  does to its collaborators is recorded, in order, as the calls it makes:
  \<open>god_scheduler.insert_pending_message(dpid, controller_id, ofp_msg, self)\<close> and
  \<open>handler(self, ofp_message)\<close>; \<open>self\<close> is the connection's identity \<open>conn_ref\<close>.
\<close>

type_synonym handler = nat

datatype 'm effect =
    InsertPendingMessage json "json list" 'm nat
  | HandlerCall handler nat 'm

text \<open>What \<open>on_message_received\<close> is bound to.\<close>

datatype callback = InsertIntoGodScheduler | DirectHandler handler

text \<open>
  The connection object. \<open>conn_controller_id\<close> is what the base class's
  \<open>get_controller_id()\<close> reports for the connection's \<open>io_worker\<close>.

  Modelled from the spec: the flag \<open>currently_blocked\<close> with \<open>block()\<close> and
  \<open>unblock()\<close> belongs to the base class \<open>OFConnection\<close>, which these sources do not
  hold; the spec gives it as "State: blocked: bool (initially false)", set by block and
  cleared by unblock.
\<close>

record connection =
  conn_ref :: nat
  conn_dpid :: json
  conn_controller_id :: "json list"
  on_message_received :: callback
  true_on_message_handler :: "handler option"
  currently_blocked :: bool

definition DeferredOFConnection_init :: "nat \<Rightarrow> json list \<Rightarrow> json \<Rightarrow> connection" where
  "DeferredOFConnection_init ref io_worker dpid =
     \<lparr> conn_ref = ref, conn_dpid = dpid, conn_controller_id = io_worker,
       on_message_received = InsertIntoGodScheduler,
       true_on_message_handler = None,
       currently_blocked = False \<rparr>"

definition insert_into_god_scheduler :: "connection \<Rightarrow> 'm \<Rightarrow> 'm effect list \<Rightarrow> 'm effect list" where
  "insert_into_god_scheduler c ofp_msg tr =
     tr @ [InsertPendingMessage (conn_dpid c) (conn_controller_id c) ofp_msg (conn_ref c)]"

definition set_message_handler :: "connection \<Rightarrow> handler \<Rightarrow> connection" where
  "set_message_handler c h = c\<lparr> true_on_message_handler := Some h \<rparr>"

text \<open>\<open>allow_message_receipt\<close>: calling the stored handler; \<open>None\<close> is not callable.\<close>

definition allow_message_receipt :: "connection \<Rightarrow> 'm \<Rightarrow> 'm effect list \<Rightarrow> error + 'm effect list" where
  "allow_message_receipt c ofp_message tr =
     (case true_on_message_handler c of
        None \<Rightarrow> Inl TypeError
      | Some h \<Rightarrow> Inr (tr @ [HandlerCall h (conn_ref c) ofp_message]))"

text \<open>
  Modelled from the spec: the base class calls \<open>on_message_received(self, msg)\<close> for
  each OpenFlow message it reads from the controller's socket.
\<close>

definition message_received :: "connection \<Rightarrow> 'm \<Rightarrow> 'm effect list \<Rightarrow> 'm effect list" where
  "message_received c ofp_msg tr =
     (case on_message_received c of
        InsertIntoGodScheduler \<Rightarrow> insert_into_god_scheduler c ofp_msg tr
      | DirectHandler h \<Rightarrow> tr @ [HandlerCall h (conn_ref c) ofp_msg])"

text \<open>
  Modelled from the spec: \<open>block()\<close> and \<open>unblock()\<close> of the base class, which set
  and clear the flag ("the first toggles \<open>connection.blocked = true\<close>; the second
  toggles it false").
\<close>

definition block :: "connection \<Rightarrow> connection" where
  "block c = c\<lparr> currently_blocked := True \<rparr>"

definition unblock :: "connection \<Rightarrow> connection" where
  "unblock c = c\<lparr> currently_blocked := False \<rparr>"

text \<open>
  A life of the connection: any sequence of messages arriving from the controller, the
  switch registering a handler, and the scheduler calling back.
\<close>

datatype 'm conn_op = Receive 'm | SetHandler handler | Allow 'm

fun conn_step :: "'m conn_op \<Rightarrow> connection \<times> 'm effect list \<Rightarrow> error + (connection \<times> 'm effect list)" where
  "conn_step (Receive m) (c, tr) = Inr (c, message_received c m tr)"
| "conn_step (SetHandler h) (c, tr) = Inr (set_message_handler c h, tr)"
| "conn_step (Allow m) (c, tr) =
     (case allow_message_receipt c m tr of Inl e \<Rightarrow> Inl e | Inr tr' \<Rightarrow> Inr (c, tr'))"

fun conn_run :: "'m conn_op list \<Rightarrow> connection \<times> 'm effect list \<Rightarrow> error + (connection \<times> 'm effect list)" where
  "conn_run [] st = Inr st"
| "conn_run (x # xs) st = (case conn_step x st of Inl e \<Rightarrow> Inl e | Inr st' \<Rightarrow> conn_run xs st')"

text \<open>The messages handed to the scheduler, and those handed to a handler, in order.\<close>

fun forwarded :: "'m effect list \<Rightarrow> (json \<times> json list \<times> 'm \<times> nat) list" where
  "forwarded [] = []"
| "forwarded (InsertPendingMessage d cid m r # tr) = (d, cid, m, r) # forwarded tr"
| "forwarded (HandlerCall h r m # tr) = forwarded tr"

fun delivered :: "'m effect list \<Rightarrow> 'm list" where
  "delivered [] = []"
| "delivered (InsertPendingMessage d cid m r # tr) = delivered tr"
| "delivered (HandlerCall h r m # tr) = m # delivered tr"

fun received_msgs :: "'m conn_op list \<Rightarrow> 'm list" where
  "received_msgs [] = []"
| "received_msgs (Receive m # xs) = m # received_msgs xs"
| "received_msgs (SetHandler h # xs) = received_msgs xs"
| "received_msgs (Allow m # xs) = received_msgs xs"

fun allowed_msgs :: "'m conn_op list \<Rightarrow> 'm list" where
  "allowed_msgs [] = []"
| "allowed_msgs (Receive m # xs) = allowed_msgs xs"
| "allowed_msgs (SetHandler h # xs) = allowed_msgs xs"
| "allowed_msgs (Allow m # xs) = m # allowed_msgs xs"

section \<open>Switches and links (sts/entities.py)\<close>

text \<open>
  \<open>ofp_phy_port\<close> belongs to the OpenFlow library; only its port number matters here.
  A switch is known to \<open>Link\<close> through its \<open>ports\<close> dictionary, and to the control
  channel events through \<open>uuid2connection\<close> (controller \<open>(ip, port)\<close> to connection).
  Equality of switches and ports is HOL equality; the objects a reversed link holds are
  the very objects of the original link.
\<close>

record ofp_phy_port =
  port_no :: int

record software_switch =
  switch_dpid :: int
  ports :: "int \<rightharpoonup> ofp_phy_port"
  uuid2connection :: "json list \<rightharpoonup> connection"

text \<open>\<open>FuzzSoftwareSwitch.get_connection\<close>.\<close>

definition get_connection :: "software_switch \<Rightarrow> json list \<Rightarrow> error + connection" where
  "get_connection sw uuid =
     (case uuid2connection sw uuid of None \<Rightarrow> Inl ValueError | Some c \<Rightarrow> Inr c)"

text \<open>
  What a caller may pass as a port: an \<open>int\<close> (resolved through \<open>ports\<close>), a
  port object, or anything else (which \<open>assert_type\<close> refuses).
\<close>

datatype port_arg = IntPort int | PhyPort ofp_phy_port | OtherPort

record link =
  start_software_switch :: software_switch
  start_port :: ofp_phy_port
  end_software_switch :: software_switch
  end_port :: ofp_phy_port

text \<open>
  \<open>Link.__init__\<close>. The membership assertion for an integer end port looks the
  number up in the \<^emph>\<open>start\<close> switch's ports, as the source does; the lookup that follows
  is in the end switch's ports and raises \<open>KeyError\<close> when the number is missing there.
\<close>

definition resolve_start_port :: "software_switch \<Rightarrow> port_arg \<Rightarrow> error + port_arg" where
  "resolve_start_port ss sp =
     (case sp of
        IntPort n \<Rightarrow>
          (case ports ss n of None \<Rightarrow> Inl AssertionError | Some p \<Rightarrow> Inr (PhyPort p))
      | _ \<Rightarrow> Inr sp)"

definition resolve_end_port ::
  "software_switch \<Rightarrow> software_switch \<Rightarrow> port_arg \<Rightarrow> error + port_arg" where
  "resolve_end_port ss es ep =
     (case ep of
        IntPort n \<Rightarrow>
          (if n \<in> dom (ports ss)
           then (case ports es n of None \<Rightarrow> Inl KeyError | Some p \<Rightarrow> Inr (PhyPort p))
           else Inl AssertionError)
      | _ \<Rightarrow> Inr ep)"

definition assert_type_port :: "port_arg \<Rightarrow> error + ofp_phy_port" where
  "assert_type_port p = (case p of PhyPort q \<Rightarrow> Inr q | _ \<Rightarrow> Inl AssertionError)"

definition Link_init ::
  "software_switch \<Rightarrow> port_arg \<Rightarrow> software_switch \<Rightarrow> port_arg \<Rightarrow> error + link" where
  "Link_init ss sp es ep =
     (case resolve_start_port ss sp of
        Inl e \<Rightarrow> Inl e
      | Inr sp' \<Rightarrow>
         (case resolve_end_port ss es ep of
            Inl e \<Rightarrow> Inl e
          | Inr ep' \<Rightarrow>
             (case assert_type_port sp' of
                Inl e \<Rightarrow> Inl e
              | Inr sp'' \<Rightarrow>
                 (case assert_type_port ep' of
                    Inl e \<Rightarrow> Inl e
                  | Inr ep'' \<Rightarrow>
                      Inr \<lparr> start_software_switch = ss, start_port = sp'',
                            end_software_switch = es, end_port = ep'' \<rparr>))))"

text \<open>\<open>Link.__eq__\<close> on two links.\<close>

definition Link_eq :: "link \<Rightarrow> link \<Rightarrow> bool" where
  "Link_eq l other \<longleftrightarrow>
     start_software_switch l = start_software_switch other \<and>
     start_port l = start_port other \<and>
     end_software_switch l = end_software_switch other \<and>
     end_port l = end_port other"

text \<open>\<open>Link.reversed_link\<close>: a new \<open>Link\<close> built from the stored objects, swapped.\<close>

definition reversed_link :: "link \<Rightarrow> error + link" where
  "reversed_link l =
     Link_init (end_software_switch l) (PhyPort (end_port l))
               (start_software_switch l) (PhyPort (start_port l))"

section \<open>Splitting the event list (EventDag.split_inputs)\<close>

text \<open>
  Python's slice \<open>xs[a:b]\<close> for integer bounds: a negative bound counts from the end,
  and both bounds are clamped to the list.
\<close>

definition clamp_index :: "int \<Rightarrow> int \<Rightarrow> nat" where
  "clamp_index n i = (let j = (if i < 0 then i + n else i) in nat (max 0 (min n j)))"

definition py_slice :: "'a list \<Rightarrow> int \<Rightarrow> int \<Rightarrow> 'a list" where
  "py_slice xs a b =
     (let n = int (length xs); lo = clamp_index n a; hi = clamp_index n b
      in take (hi - lo) (drop lo xs))"

text \<open>
  The \<open>while\<close> loop of \<open>split_inputs\<close>, with its four locals as arguments. The loop
  need not end from an arbitrary state (an interval of zero repeats forever), so it is a
  partial function: \<open>None\<close> is "does not return".
\<close>

partial_function (option) split_loop ::
  "'a list \<Rightarrow> int \<Rightarrow> 'a list list \<Rightarrow> int \<Rightarrow> int \<Rightarrow> int \<Rightarrow> 'a list list option" where
  "split_loop events split_ways splits split_interval start_idx split_idx =
     (if start_idx < int (length events) then
        (let splits' = splits @ [py_slice events start_idx split_idx];
             start_idx' = split_idx;
             split_interval' =
               (if split_idx + split_interval \<ge> int (length events) \<and>
                   int (length splits') = split_ways - 2
                then split_interval - 1 else split_interval);
             split_idx' = split_idx + split_interval'
         in split_loop events split_ways splits' split_interval' start_idx' split_idx')
      else Some splits)"

declare split_loop.simps [code]

text \<open>
  \<open>int(math.ceil(len(events) * 1.0 / split_ways))\<close> for a positive \<open>split_ways\<close>,
  computed exactly (the source goes through a float, which is exact for list lengths
  below \<open>2^53\<close>).
\<close>

definition ceil_div :: "int \<Rightarrow> int \<Rightarrow> int" where
  "ceil_div n k = - ((- n) div k)"

definition split_inputs :: "'a list \<Rightarrow> int \<Rightarrow> (error + 'a list list) option" where
  "split_inputs events split_ways =
     (if length events = 0 then Some (Inr [[]])
      else if split_ways = 1 then Some (Inr [events])
      else if split_ways < 1 \<or> split_ways > int (length events) then Some (Inl ValueError)
      else
        (let split_interval = ceil_div (int (length events)) split_ways;
             start_idx = 0;
             split_idx = start_idx + split_interval
         in map_option Inr
              (split_loop events split_ways [] split_interval start_idx split_idx)))"

text \<open>
  The loop invariant used below: the interval stays positive. Either it is at least two,
  or the one decrement has happened or can no longer happen (\<open>len(splits)\<close> has
  reached \<open>split_ways - 2\<close>), or one slice per event is being cut.
\<close>

definition split_inv :: "int \<Rightarrow> int \<Rightarrow> int \<Rightarrow> int \<Rightarrow> int \<Rightarrow> bool" where
  "split_inv n k len_splits interval start \<longleftrightarrow>
     2 \<le> interval \<or> (1 \<le> interval \<and> k - 2 \<le> len_splits) \<or>
     (interval = 1 \<and> start = len_splits \<and> n = k)"

section \<open>The event DAG (EventDag)\<close>

text \<open>
  \<open>_event_to_index\<close> is keyed by the event objects themselves, that is by identity (no
  event class defines \<open>__eq__\<close> or \<open>__hash__\<close>). The events of a list are taken to be
  distinct objects, so the dictionary is the list of its entries, one per event, and two
  events with equal attributes keep their two entries. \<open>_label2event\<close> is keyed by the
  labels' values.
\<close>

record event_dag =
  events_list :: "event list"
  event_to_index :: "(event \<times> nat) list"
  label2event :: "json \<rightharpoonup> event"

text \<open>A list or a dict cannot be a dictionary key.\<close>

fun hashable :: "json \<Rightarrow> bool" where
  "hashable (JArr _) = False"
| "hashable (JObj _) = False"
| "hashable _ = True"

text \<open>
  \<open>EventDag(events, is_view=True)\<close>: the list and the two dictionaries built from it
  (in \<open>_label2event\<close> a later event overwrites an earlier one with the same label). With
  \<open>is_view=False\<close> the constructor goes on to \<open>_mark_invalid_input_sequences\<close>,
  whose text breaks off in the sources, so only views are built here.
\<close>

definition EventDag_view :: "event list \<Rightarrow> error + event_dag" where
  "EventDag_view events =
     (if list_all (\<lambda>e. hashable (label e)) events
      then Inr \<lparr> events_list = events,
                 event_to_index = zip events [0 ..< length events],
                 label2event = map_of (rev (map (\<lambda>e. (label e, e)) events)) \<rparr>
      else Inl TypeError)"

subsection \<open>peek\<close>

text \<open>
  Modelled from the spec: \<open>SyncTime.as_float()\<close> is outside these sources; the spec
  gives a time as the pair of seconds and microseconds. The value is kept exact, in
  microseconds; a component that is not a number is a \<open>TypeError\<close>.
\<close>

definition as_float :: "sync_time \<Rightarrow> error + int" where
  "as_float t =
     (case t of
        (JInt sec, JInt usec) \<Rightarrow> Inr (sec * 1000000 + usec)
      | _ \<Rightarrow> Inl TypeError)"

text \<open>\<open>EventDag._peek_seconds = 10.0\<close>, in microseconds.\<close>

definition peek_seconds :: int where
  "peek_seconds = 10 * 1000000"

text \<open>
  The \<open>for i in xrange(0, len(input_events)-1)\<close> loop of \<open>peek\<close>, over the
  remaining input events. Its body computes \<open>wait_time\<close> from \<open>next_event\<close> and then
  stores it under the key \<open>event\<close>, a name bound neither in \<open>peek\<close> nor in the
  module: the first pass raises \<open>NameError\<close>.
\<close>

fun peek_loop :: "event list \<Rightarrow> (event \<rightharpoonup> int) \<Rightarrow> error + (event \<rightharpoonup> int)" where
  "peek_loop (current_event # next_event # rest) event2wait_time =
     bind_err (as_float (time next_event)) (\<lambda>t.
       let wait_time = t + peek_seconds in Inl NameError)"
| "peek_loop _ event2wait_time = Inr event2wait_time"

text \<open>
  \<open>EventDag.peek\<close>. \<open>event2wait_time\<close> is a local dictionary: the method assigns no
  attribute of the DAG and returns \<open>None\<close>, so all a caller can see is whether it
  raised.
\<close>

definition peek :: "event_dag \<Rightarrow> error + unit" where
  "peek dag =
     (let input_events = filter (\<lambda>e. is_InputEvent (attrs e)) (events_list dag)
      in if length input_events = 0 then Inr ()
         else
           bind_err (peek_loop input_events Map.empty) (\<lambda>event2wait_time.
           bind_err (as_float (time (last (events_list dag)))) (\<lambda>t.
             let last_wait_time = t + peek_seconds;
                 event2wait_time' = event2wait_time(last input_events \<mapsto> last_wait_time)
             in Inr ())))"

subsection \<open>remove_events\<close>

text \<open>
  \<open>EventDag._remove_event\<close>. Its first statement tests
  \<open>event.label in self._label2event[event.label]\<close>: the subscript raises
  \<open>KeyError\<close> when the label is not a key, and otherwise yields an event object, in
  which \<open>in\<close> cannot search (no event class defines \<open>__contains__\<close>, \<open>__iter__\<close> or
  \<open>__getitem__\<close>): \<open>TypeError\<close>. The statements after it, among them
  \<open>list_idx = del self._event_to_index[event]\<close>, are never reached.
\<close>

definition remove_event :: "event_dag \<Rightarrow> event \<Rightarrow> error + event_dag" where
  "remove_event dag event =
     (case label2event dag (label event) of
        None \<Rightarrow> Inl KeyError
      | Some found \<Rightarrow> Inl TypeError)"

fun remove_each :: "event_dag \<Rightarrow> event list \<Rightarrow> error + event_dag" where
  "remove_each dag [] = Inr dag"
| "remove_each dag (event # rest) =
     bind_err (remove_event dag event) (\<lambda>dag'. remove_each dag' rest)"

definition remove_events :: "event_dag \<Rightarrow> event list \<Rightarrow> error + event_dag" where
  "remove_events dag ignored_portion =
     bind_err
       (remove_each dag
          (filter (\<lambda>e. is_InputEvent (attrs e) \<and> \<not> is_recovery_type (attrs e))
                  ignored_portion)) (\<lambda>dag'.
     bind_err (peek dag') (\<lambda>_. Inr dag'))"

section \<open>The simulation and proceed\<close>

text \<open>
  Modelled from the spec: the simulation facade (topology, controller manager, patch
  panel, god scheduler, sync callback, dataplane trace, invariant checker) is outside
  these sources. The model keeps what \<open>proceed\<close> reads from it: the switches by dpid,
  whether a dataplane trace is configured, the fingerprints of the buffered dataplane
  events, the pending control-message receives, the pending state changes, and what each
  invariant check would report. A call that only acts on a collaborator is recorded in
  \<open>calls\<close>, in order; whether the collaborator itself raises is outside the model.
\<close>

type_synonym pending_receive = "json \<times> json list \<times> json"

type_synonym pending_state_change = "json list \<times> sync_time \<times> json \<times> json \<times> json"

datatype facade_call =
    CrashSwitch software_switch
  | RecoverSwitch software_switch
  | SeverLink link
  | RepairLink link
  | KillController "json \<times> int"
  | RebootController "json \<times> int"
  | MigrateHost int int int int
  | InjectTraceEvent
  | Sleep json
  | DropDpEvent json
  | PermitDpEvent json
  | Schedule pending_receive
  | GcPendingStateChange pending_state_change

record simulation =
  switches :: "json \<rightharpoonup> software_switch"
  dataplane_trace :: bool
  buffered_dp_events :: "json list"
  pending_receives :: "pending_receive list"
  pending_state_changes :: "pending_state_change list"
  check_result :: "string \<Rightarrow> string list"
  calls :: "facade_call list"

text \<open>
  Modelled from the spec: \<open>topology.get_switch(dpid)\<close> finds the switch by its dpid;
  an unknown dpid is a failed dictionary lookup.
\<close>

definition get_switch :: "simulation \<Rightarrow> json \<Rightarrow> error + software_switch" where
  "get_switch sim dpid = (case switches sim dpid of None \<Rightarrow> Inl KeyError | Some sw \<Rightarrow> Inr sw)"

text \<open>Recording a call on a collaborator.\<close>

definition call :: "facade_call \<Rightarrow> simulation \<Rightarrow> simulation" where
  "call c sim = sim\<lparr> calls := calls sim @ [c] \<rparr>"

text \<open>\<open>get_link(link_event, simulation)\<close>.\<close>

definition get_link :: "int \<Rightarrow> int \<Rightarrow> int \<Rightarrow> int \<Rightarrow> simulation \<Rightarrow> error + link" where
  "get_link start_dpid start_port_no end_dpid end_port_no sim =
     bind_err (get_switch sim (JInt start_dpid)) (\<lambda>start_software_switch.
     bind_err (get_switch sim (JInt end_dpid)) (\<lambda>end_software_switch.
       Link_init start_software_switch (IntPort start_port_no)
                 end_software_switch (IntPort end_port_no)))"

text \<open>Storing a connection back in its switch: the object the event mutated.\<close>

definition put_connection ::
  "json \<Rightarrow> software_switch \<Rightarrow> json list \<Rightarrow> connection \<Rightarrow> simulation \<Rightarrow> simulation" where
  "put_connection dpid sw uuid c sim =
     sim\<lparr> switches := (switches sim)
            (dpid \<mapsto> sw\<lparr> uuid2connection := (uuid2connection sw)(uuid \<mapsto> c) \<rparr>) \<rparr>"

text \<open>Python's truth value of a JSON value (\<open>if self.fail_on_error\<close>).\<close>

fun json_truthy :: "json \<Rightarrow> bool" where
  "json_truthy JNull = False"
| "json_truthy (JBool b) = b"
| "json_truthy (JInt n) = (n \<noteq> 0)"
| "json_truthy (JStr s) = (s \<noteq> [])"
| "json_truthy (JArr xs) = (xs \<noteq> [])"
| "json_truthy (JObj kvs) = (kvs \<noteq> [])"

text \<open>
  The \<open>proceed\<close> method of each class, on the event's time and attributes. A body that
  ends without \<open>return\<close> (\<open>PolicyChange.proceed\<close>, and \<open>InternalEvent.proceed\<close>, which
  \<open>DeterministicValue\<close> inherits) returns \<open>None\<close>. \<open>WaitTime.proceed\<close> formats
  \<open>wait_time\<close> with \<open>%f\<close>, which takes a number, and \<open>time.sleep\<close> refuses a
  negative one (\<open>IOError\<close>); \<open>exit(5)\<close> in \<open>CheckInvariants.proceed\<close> is the
  exception \<open>SystemExit\<close>.
\<close>

fun proceed_attrs :: "sync_time \<Rightarrow> event_attrs \<Rightarrow> simulation \<Rightarrow> error + (pyresult \<times> simulation)" where
  "proceed_attrs tm (SwitchFailure dpid) sim =
     bind_err (get_switch sim (JInt dpid)) (\<lambda>software_switch.
       Inr (PyTrue, call (CrashSwitch software_switch) sim))"
| "proceed_attrs tm (SwitchRecovery dpid) sim =
     bind_err (get_switch sim (JInt dpid)) (\<lambda>software_switch.
       Inr (PyTrue, call (RecoverSwitch software_switch) sim))"
| "proceed_attrs tm (LinkFailure a b c d) sim =
     bind_err (get_link a b c d sim) (\<lambda>l. Inr (PyTrue, call (SeverLink l) sim))"
| "proceed_attrs tm (LinkRecovery a b c d) sim =
     bind_err (get_link a b c d sim) (\<lambda>l. Inr (PyTrue, call (RepairLink l) sim))"
| "proceed_attrs tm (ControllerFailure cid) sim = Inr (PyTrue, call (KillController cid) sim)"
| "proceed_attrs tm (ControllerRecovery cid) sim = Inr (PyTrue, call (RebootController cid) sim)"
| "proceed_attrs tm (HostMigration a b c d) sim = Inr (PyTrue, call (MigrateHost a b c d) sim)"
| "proceed_attrs tm (PolicyChange request_type) sim = Inr (PyNone, sim)"
| "proceed_attrs tm TrafficInjection sim =
     (if \<not> dataplane_trace sim then Inl RuntimeError
      else Inr (PyTrue, call InjectTraceEvent sim))"
| "proceed_attrs tm (WaitTime wait_time) sim =
     (case wait_time of
        JInt n \<Rightarrow>
          if n < 0 then Inl IOError else Inr (PyTrue, call (Sleep wait_time) sim)
      | JBool b \<Rightarrow> Inr (PyTrue, call (Sleep wait_time) sim)
      | _ \<Rightarrow> Inl TypeError)"
| "proceed_attrs tm (CheckInvariants fail_on_error invariant_check) sim =
     (let violations = check_result sim invariant_check
      in if violations \<noteq> [] \<and> json_truthy fail_on_error then Inl (SystemExit 5)
         else Inr (PyTrue, sim))"
| "proceed_attrs tm (ControlChannelBlock dpid cid) sim =
     bind_err (get_switch sim dpid) (\<lambda>switch.
     bind_err (get_connection switch cid) (\<lambda>c.
       if currently_blocked c then Inl RuntimeError
       else Inr (PyTrue, put_connection dpid switch cid (block c) sim)))"
| "proceed_attrs tm (ControlChannelUnblock dpid cid) sim =
     bind_err (get_switch sim dpid) (\<lambda>switch.
     bind_err (get_connection switch cid) (\<lambda>c.
       if \<not> currently_blocked c then Inl RuntimeError
       else Inr (PyTrue, put_connection dpid switch cid (unblock c) sim)))"
| "proceed_attrs tm (DataplaneDrop fingerprint) sim =
     (if fingerprint \<in> set (buffered_dp_events sim)
      then Inr (PyTrue, call (DropDpEvent fingerprint)
                  (sim\<lparr> buffered_dp_events := remove1 fingerprint (buffered_dp_events sim) \<rparr>))
      else Inr (PyFalse, sim))"
| "proceed_attrs tm (DataplanePermit fingerprint) sim =
     (if fingerprint \<in> set (buffered_dp_events sim)
      then Inr (PyTrue, call (PermitDpEvent fingerprint)
                  (sim\<lparr> buffered_dp_events := remove1 fingerprint (buffered_dp_events sim) \<rparr>))
      else Inr (PyFalse, sim))"
| "proceed_attrs tm (ControlMessageReceive dpid cid fingerprint) sim =
     (let pending_receive = (dpid, cid, fingerprint);
          message_waiting = pending_receive \<in> set (pending_receives sim)
      in if message_waiting
         then Inr (PyTrue, call (Schedule pending_receive)
                     (sim\<lparr> pending_receives := remove1 pending_receive (pending_receives sim) \<rparr>))
         else Inr (PyFalse, sim))"
| "proceed_attrs tm (ControllerStateChange cid fingerprint name val) sim =
     (let pending_state_change = (cid, tm, fingerprint, name, val);
          observed_yet = pending_state_change \<in> set (pending_state_changes sim)
      in if observed_yet
         then Inr (PyTrue, call (GcPendingStateChange pending_state_change)
                     (sim\<lparr> pending_state_changes :=
                            remove1 pending_state_change (pending_state_changes sim) \<rparr>))
         else Inr (PyFalse, sim))"
| "proceed_attrs tm DeterministicValue sim = Inr (PyNone, sim)"

definition proceed :: "event \<Rightarrow> simulation \<Rightarrow> error + (pyresult \<times> simulation)" where
  "proceed e sim = proceed_attrs (time e) (attrs e) sim"

section \<open>The replay loop (EventWatcher.run)\<close>





section \<open>Concrete scenarios\<close>

text \<open>A simulation with no switch, no dataplane trace, nothing buffered and nothing pending.\<close>

definition quiet_simulation :: simulation where
  "quiet_simulation =
     \<lparr> switches = Map.empty, dataplane_trace = False, buffered_dp_events = [],
       pending_receives = [], pending_state_changes = [],
       check_result = (\<lambda>_. []), calls = [] \<rparr>"

text \<open>
  One switch, dpid \<open>1\<close>, with one connection, to the controller at
  \<open>("127.0.0.1", 8888)\<close>, blocked or not.
\<close>

definition channel_simulation :: "bool \<Rightarrow> simulation" where
  "channel_simulation blocked =
     quiet_simulation
       \<lparr> switches :=
           [JInt 1 \<mapsto>
              \<lparr> switch_dpid = 1, ports = Map.empty,
                uuid2connection =
                  [[JStr ''127.0.0.1'', JInt 8888] \<mapsto>
                     (DeferredOFConnection_init 0 [JStr ''127.0.0.1'', JInt 8888] (JInt 1))
                       \<lparr> currently_blocked := blocked \<rparr>] \<rparr>] \<rparr>"

text \<open>An event of a class, labelled \<open>e1\<close>, at time \<open>(0, 0)\<close>.\<close>

definition event_of :: "event_attrs \<Rightarrow> event" where
  "event_of a = \<lparr> label = JStr ''e1'', time = (JInt 0, JInt 0), dependent_labels = [], attrs = a \<rparr>"

section \<open>Theorems\<close>

subsection \<open>Link reversal\<close>

lemma Link_init_resolved:
  "Link_init ss (PhyPort sp) es (PhyPort ep) =
     Inr \<lparr> start_software_switch = ss, start_port = sp,
           end_software_switch = es, end_port = ep \<rparr>"
  by (simp add: Link_init_def resolve_start_port_def resolve_end_port_def assert_type_port_def)

text \<open>
  C10. Reversing a link twice gives a link equal to the original under \<open>Link.__eq__\<close>:
  both constructions succeed (a stored port is a port object, so no assertion fires) and
  the four fields are back in place.
\<close>

theorem reversed_link_involution:
  "\<exists>r rr. reversed_link l = Inr r \<and> reversed_link r = Inr rr \<and> Link_eq rr l"
  by (simp add: reversed_link_def Link_init_resolved Link_eq_def)

subsection \<open>split_inputs\<close>

lemma py_slice_nonneg:
  assumes "0 \<le> s" "0 \<le> i"
  shows "py_slice xs s (s + i) = take (nat i) (drop (nat s) xs)"
proof -
  let ?n = "int (length xs)"
  have lo: "clamp_index ?n s = min (length xs) (nat s)"
    using assms by (auto simp: clamp_index_def Let_def min_def max_def)
  have hi: "clamp_index ?n (s + i) = min (length xs) (nat (s + i))"
    using assms by (auto simp: clamp_index_def Let_def min_def max_def)
  show ?thesis
  proof (cases "nat s \<le> length xs")
    case True
    then show ?thesis
      unfolding py_slice_def Let_def lo hi using assms
      by (auto simp: min_def take_all_iff nat_add_distrib)
  next
    case False
    then show ?thesis
      unfolding py_slice_def Let_def lo hi using assms by simp
  qed
qed

lemma py_slice_append_drop:
  assumes "0 \<le> s" "0 \<le> i"
  shows "py_slice xs s (s + i) @ drop (nat (s + i)) xs = drop (nat s) xs"
proof -
  have "drop (nat (s + i)) xs = drop (nat i) (drop (nat s) xs)"
    using assms by (simp add: nat_add_distrib add.commute)
  then show ?thesis
    by (simp only: py_slice_nonneg[OF assms] append_take_drop_id)
qed

lemma py_slice_nonempty:
  assumes "0 \<le> s" "s < int (length xs)" "1 \<le> i"
  shows "py_slice xs s (s + i) \<noteq> []"
  using assms by (simp add: py_slice_nonneg)

lemma split_loop_total:
  assumes "0 \<le> s" "split_inv (int (length events)) k (int (length splits)) i s"
  shows "\<exists>res. split_loop events k splits i s (s + i) = Some res \<and>
           concat res = concat splits @ drop (nat s) events \<and>
           (\<forall>x \<in> set res. x \<in> set splits \<or> x \<noteq> [])"
  using assms
proof (induction "nat (int (length events) - s)" arbitrary: s i splits rule: less_induct)
  case less
  let ?n = "int (length events)"
  show ?case
  proof (cases "s < ?n")
    case False
    then show ?thesis
      by (subst split_loop.simps) simp
  next
    case True
    from less.prems have i1: "1 \<le> i" by (auto simp: split_inv_def)
    let ?sl = "py_slice events s (s + i)"
    let ?splits' = "splits @ [?sl]"
    let ?i' = "if ?n \<le> s + i + i \<and> int (length ?splits') = k - 2 then i - 1 else i"
    have step: "split_loop events k splits i s (s + i) =
                  split_loop events k ?splits' ?i' (s + i) (s + i + ?i')"
      using True by (subst split_loop.simps) (simp add: Let_def)
    have inv': "split_inv ?n k (int (length ?splits')) ?i' (s + i)"
      using less.prems(2) True unfolding split_inv_def by auto
    have s': "0 \<le> s + i" using less.prems(1) i1 by simp
    have m: "nat (?n - (s + i)) < nat (?n - s)" using True i1 by simp
    from less.hyps[OF m s' inv'] obtain res where
      r: "split_loop events k ?splits' ?i' (s + i) (s + i + ?i') = Some res"
         "concat res = concat ?splits' @ drop (nat (s + i)) events"
         "\<forall>x \<in> set res. x \<in> set ?splits' \<or> x \<noteq> []"
      by blast
    have ne: "?sl \<noteq> []"
      using py_slice_nonempty[OF less.prems(1) True i1] .
    have cat: "?sl @ drop (nat (s + i)) events = drop (nat s) events"
      using py_slice_append_drop[of s i events] less.prems(1) i1 by simp
    have "concat res = concat splits @ drop (nat s) events"
      using r(2) cat by simp
    moreover have "\<forall>x \<in> set res. x \<in> set splits \<or> x \<noteq> []"
      using r(3) ne by auto
    ultimately show ?thesis using step r(1) by simp
  qed
qed

lemma ceil_div_pos:
  assumes "1 \<le> n" "1 \<le> k"
  shows "1 \<le> ceil_div n k" and "ceil_div n k = 1 \<Longrightarrow> n \<le> k"
proof -
  have neg: "(- n) div k < 0"
    by (rule div_neg_pos_less0) (use assms in simp_all)
  then show "1 \<le> ceil_div n k" by (simp add: ceil_div_def)
  assume "ceil_div n k = 1"
  then have d: "(- n) div k = - 1" by (simp add: ceil_div_def)
  have "- n = k * ((- n) div k) + (- n) mod k" by simp
  moreover have "0 \<le> (- n) mod k" using assms by simp
  ultimately have "- k \<le> - n" using d by simp
  then show "n \<le> k" by simp
qed

text \<open>
  What \<open>split_inputs\<close> does guarantee. On an empty event list it answers \<open>[[]]\<close>
  for every \<open>split_ways\<close>. On a non-empty list with \<open>1 \<le> split_ways \<le> len(events)\<close>
  the loop ends and returns slices that are all non-empty and whose concatenation is the
  event list; with \<open>split_ways\<close> outside that range it raises \<open>ValueError\<close>.
\<close>

lemma split_inputs_slices:
  "(events = [] \<longrightarrow> split_inputs events k = Some (Inr [[]])) \<and>
   (events \<noteq> [] \<and> 1 \<le> k \<and> k \<le> int (length events) \<longrightarrow>
      (\<exists>splits. split_inputs events k = Some (Inr splits) \<and>
         concat splits = events \<and> (\<forall>s \<in> set splits. s \<noteq> []))) \<and>
   (events \<noteq> [] \<and> (k < 1 \<or> int (length events) < k) \<longrightarrow>
      split_inputs events k = Some (Inl ValueError))"
proof (intro conjI impI)
  assume "events = []"
  then show "split_inputs events k = Some (Inr [[]])"
    by (simp add: split_inputs_def)
next
  assume "events \<noteq> [] \<and> (k < 1 \<or> int (length events) < k)"
  then show "split_inputs events k = Some (Inl ValueError)"
    by (auto simp: split_inputs_def)
next
  assume a: "events \<noteq> [] \<and> 1 \<le> k \<and> k \<le> int (length events)"
  let ?n = "int (length events)"
  show "\<exists>splits. split_inputs events k = Some (Inr splits) \<and>
          concat splits = events \<and> (\<forall>s \<in> set splits. s \<noteq> [])"
  proof (cases "k = 1")
    case True
    with a show ?thesis by (simp add: split_inputs_def)
  next
    case False
    with a have k2: "2 \<le> k" by simp
    from a have n1: "1 \<le> ?n" by (cases events) simp_all
    let ?i = "ceil_div ?n k"
    have i1: "1 \<le> ?i" and i_eq: "?i = 1 \<Longrightarrow> ?n \<le> k"
      using ceil_div_pos[OF n1, of k] k2 by simp_all
    have inv: "split_inv ?n k (int (length ([]::'a list list))) ?i 0"
      unfolding split_inv_def using i1 i_eq a by auto
    from split_loop_total[OF _ inv] obtain res where
      r: "split_loop events k [] ?i 0 (0 + ?i) = Some res"
         "concat res = concat [] @ drop (nat 0) events"
         "\<forall>x \<in> set res. x \<in> set [] \<or> x \<noteq> []"
      by auto
    have "split_inputs events k = Some (Inr res)"
      using a False r(1) by (simp add: split_inputs_def Let_def)
    then show ?thesis using r(2,3) by simp
  qed
qed

text \<open>
  C3 at five events and \<open>split_ways = 4\<close>: the interval is \<open>ceil(5 / 4) = 2\<close>; the
  shrink rule fires only when \<open>len(splits) = split_ways - 2\<close>, that is after the second
  slice, when a single event is left. Three slices come back, not four.
\<close>

theorem split_inputs_five_events_four_ways:
  "split_inputs [10, 20, 30, 40, 50 :: nat] 4 = Some (Inr [[10, 20], [30, 40], [50]])"
  by (simp add: split_inputs_def ceil_div_def split_loop.simps py_slice_def clamp_index_def)

text \<open>
  The guard for an empty event list comes before any look at \<open>split_ways\<close>: no error,
  and the one list returned is empty.
\<close>

lemma split_inputs_empty_list:
  "split_inputs ([]::nat list) 1 = Some (Inr [[]])"
  by (simp add: split_inputs_def)

subsection \<open>The JSON codec\<close>

text \<open>
  C1 at a \<open>ControllerRecovery\<close> event: serialising it and reading the line back with
  \<open>ControllerRecovery.from_json\<close> yields a \<open>ControllerFailure\<close> event (same label,
  time and \<open>controller_id\<close>), not a \<open>ControllerRecovery\<close>: the method's last line
  constructs the wrong class.
\<close>

theorem ControllerRecovery_roundtrip_gives_failure:
  "bind_err
     (to_json \<lparr> label = JStr ''e1'', time = (JInt 0, JInt 0), dependent_labels = [],
                attrs = ControllerRecovery (JStr ''127.0.0.1'', 8888) \<rparr>)
     (ControllerRecovery_from_json 1)
   = Inr (\<lparr> label = JStr ''e1'', time = (JInt 0, JInt 0), dependent_labels = [],
            attrs = ControllerFailure (JStr ''127.0.0.1'', 8888) \<rparr>, 1)"
  by (simp add: to_json_def bind_err_def ControllerRecovery_from_json_def
      extract_label_time_def getitem_def controller_id_pair_def construct_def Event_init_def)

text \<open>
  C2 at a \<open>ControllerStateChange\<close> object that has the mandatory keys and exactly the
  four extra keys of the format (\<open>controller_id\<close>, \<open>fingerprint\<close>, \<open>name\<close>,
  \<open>value\<close>): \<open>from_json\<close> raises \<open>ValueError\<close>, because it also asserts a
  \<open>dpid\<close> field.
\<close>

theorem ControllerStateChange_from_json_wants_dpid:
  "ControllerStateChange_from_json 1
     (Map.empty(''class'' \<mapsto> JStr ''ControllerStateChange'', ''label'' \<mapsto> JStr ''e1'',
        ''time'' \<mapsto> JArr [JInt 0, JInt 0],
        ''controller_id'' \<mapsto> JArr [JStr ''127.0.0.1'', JInt 8888],
        ''fingerprint'' \<mapsto> JStr ''fp'', ''name'' \<mapsto> JStr ''mastership'',
        ''value'' \<mapsto> JInt 1))
   = Inl ValueError"
  by (simp add: ControllerStateChange_from_json_def bind_err_def extract_label_time_def
      getitem_def)

text \<open>
  The same claim's other named case: a \<open>ControllerFailure\<close> object without
  \<open>controller_id\<close> is refused, but by the dictionary lookup (\<open>KeyError\<close>), since
  the field check before it checks nothing.
\<close>

lemma ControllerFailure_from_json_missing_id:
  "ControllerFailure_from_json 1
     (Map.empty(''class'' \<mapsto> JStr ''ControllerFailure'', ''label'' \<mapsto> JStr ''e1'',
        ''time'' \<mapsto> JArr [JInt 0, JInt 0]))
   = Inl KeyError"
  by (simp add: ControllerFailure_from_json_def bind_err_def extract_label_time_def
      getitem_def controller_id_pair_def)

subsection \<open>The intercepted connection\<close>

lemma forwarded_append: "forwarded (a @ b) = forwarded a @ forwarded b"
  by (induction a rule: forwarded.induct) simp_all

lemma delivered_append: "delivered (a @ b) = delivered a @ delivered b"
  by (induction a rule: delivered.induct) simp_all

lemma conn_step_trace:
  assumes "on_message_received c = InsertIntoGodScheduler"
    and "conn_step x (c, tr) = Inr (c', tr')"
  shows "on_message_received c' = InsertIntoGodScheduler \<and>
         conn_dpid c' = conn_dpid c \<and> conn_controller_id c' = conn_controller_id c \<and>
         conn_ref c' = conn_ref c \<and>
         forwarded tr' = forwarded tr @
           map (\<lambda>m. (conn_dpid c, conn_controller_id c, m, conn_ref c)) (received_msgs [x]) \<and>
         delivered tr' = delivered tr @ allowed_msgs [x]"
  using assms
  by (cases x)
     (auto simp: message_received_def insert_into_god_scheduler_def set_message_handler_def
        allow_message_receipt_def forwarded_append delivered_append
        split: option.splits)

lemma received_msgs_Cons: "received_msgs (x # xs) = received_msgs [x] @ received_msgs xs"
  by (cases x) simp_all

lemma allowed_msgs_Cons: "allowed_msgs (x # xs) = allowed_msgs [x] @ allowed_msgs xs"
  by (cases x) simp_all

lemma conn_run_trace:
  assumes "on_message_received c = InsertIntoGodScheduler"
    and "conn_run ops (c, tr) = Inr (c', tr')"
  shows "forwarded tr' = forwarded tr @
           map (\<lambda>m. (conn_dpid c, conn_controller_id c, m, conn_ref c)) (received_msgs ops) \<and>
         delivered tr' = delivered tr @ allowed_msgs ops"
  using assms
proof (induction ops arbitrary: c tr)
  case Nil
  then show ?case by simp
next
  case (Cons x xs)
  from Cons.prems(2) obtain c1 tr1 where
    s: "conn_step x (c, tr) = Inr (c1, tr1)" and r: "conn_run xs (c1, tr1) = Inr (c', tr')"
    by (auto split: sum.splits)
  note st = conn_step_trace[OF Cons.prems(1) s]
  from st have i: "on_message_received c1 = InsertIntoGodScheduler" by simp
  from Cons.IH[OF i r] st show ?case
    by (simp add: received_msgs_Cons[of x xs] allowed_msgs_Cons[of x xs])
qed

text \<open>
  C9. Over any life of a freshly built \<open>DeferredOFConnection\<close> (messages arriving
  from the controller, the switch registering its handler, the scheduler calling
  \<open>allow_message_receipt\<close>): each arriving message is passed to the god scheduler as
  \<open>(dpid, controller_id, ofp_msg, self)\<close>, in order, and the messages handed to the
  switch's handler are exactly those of the scheduler's call-backs; an arriving message
  alone never reaches the handler.
\<close>

theorem intercepted_connection_trace:
  assumes "conn_run ops (DeferredOFConnection_init ref cid dpid, []) = Inr (c', tr)"
  shows "forwarded tr = map (\<lambda>m. (dpid, cid, m, ref)) (received_msgs ops) \<and>
         delivered tr = allowed_msgs ops"
  using conn_run_trace[OF _ assms] by (simp add: DeferredOFConnection_init_def)

text \<open>
  Two messages arrive around the registration of handler \<open>7\<close>; the scheduler then
  allows the first. Both went to the scheduler, one reached the handler.
\<close>

theorem intercepted_connection_trace_witness:
  "conn_run [Receive (1::nat), SetHandler 7, Receive 2, Allow 1]
      (DeferredOFConnection_init 0 [JStr ''127.0.0.1'', JInt 8888] (JInt 1), [])
     = Inr (set_message_handler
              (DeferredOFConnection_init 0 [JStr ''127.0.0.1'', JInt 8888] (JInt 1)) 7,
            [InsertPendingMessage (JInt 1) [JStr ''127.0.0.1'', JInt 8888] 1 0,
             InsertPendingMessage (JInt 1) [JStr ''127.0.0.1'', JInt 8888] 2 0,
             HandlerCall 7 0 1]) \<and>
   forwarded [InsertPendingMessage (JInt 1) [JStr ''127.0.0.1'', JInt 8888] (1::nat) 0,
              InsertPendingMessage (JInt 1) [JStr ''127.0.0.1'', JInt 8888] 2 0,
              HandlerCall 7 0 1]
     = [(JInt 1, [JStr ''127.0.0.1'', JInt 8888], 1, 0),
        (JInt 1, [JStr ''127.0.0.1'', JInt 8888], 2, 0)] \<and>
   delivered [InsertPendingMessage (JInt 1) [JStr ''127.0.0.1'', JInt 8888] (1::nat) 0,
              InsertPendingMessage (JInt 1) [JStr ''127.0.0.1'', JInt 8888] 2 0,
              HandlerCall 7 0 1] = [1]"
proof -
  have r: "conn_run [Receive (1::nat), SetHandler 7, Receive 2, Allow 1]
      (DeferredOFConnection_init 0 [JStr ''127.0.0.1'', JInt 8888] (JInt 1), [])
     = Inr (set_message_handler
              (DeferredOFConnection_init 0 [JStr ''127.0.0.1'', JInt 8888] (JInt 1)) 7,
            [InsertPendingMessage (JInt 1) [JStr ''127.0.0.1'', JInt 8888] 1 0,
             InsertPendingMessage (JInt 1) [JStr ''127.0.0.1'', JInt 8888] 2 0,
             HandlerCall 7 0 1])"
    by (simp add: DeferredOFConnection_init_def message_received_def
        insert_into_god_scheduler_def set_message_handler_def allow_message_receipt_def)
  from intercepted_connection_trace[OF r] r show ?thesis by simp
qed

subsection \<open>The replay loop\<close>










subsection \<open>proceed\<close>

text \<open>
  C7. Where the switch and its connection to the controller exist:
  \<open>ControlChannelBlock.proceed\<close> raises \<open>RuntimeError\<close> when the connection is
  already blocked, and otherwise blocks it and returns \<open>True\<close>;
  \<open>ControlChannelUnblock.proceed\<close> unblocks a blocked connection and returns
  \<open>True\<close>, and raises \<open>RuntimeError\<close> when it is not blocked. The connection a later
  lookup finds is the one stored.
\<close>

theorem control_channel_block_unblock:
  assumes "switches sim dpid = Some sw" and "uuid2connection sw cid = Some c"
    and "attrs eb = ControlChannelBlock dpid cid"
    and "attrs eu = ControlChannelUnblock dpid cid"
  shows "proceed eb sim =
           (if currently_blocked c then Inl RuntimeError
            else Inr (PyTrue, put_connection dpid sw cid (block c) sim)) \<and>
         proceed eu sim =
           (if currently_blocked c
            then Inr (PyTrue, put_connection dpid sw cid (unblock c) sim)
            else Inl RuntimeError) \<and>
         currently_blocked (block c) \<and> \<not> currently_blocked (unblock c) \<and>
         bind_err (get_switch (put_connection dpid sw cid c' sim) dpid)
           (\<lambda>s. get_connection s cid) = Inr c'"
  using assms
  by (simp add: proceed_def bind_err_def get_switch_def get_connection_def
      put_connection_def block_def unblock_def)

lemma channel_simulation_lookup:
  "switches (channel_simulation b) (JInt 1) =
     Some \<lparr> switch_dpid = 1, ports = Map.empty,
            uuid2connection =
              [[JStr ''127.0.0.1'', JInt 8888] \<mapsto>
                 (DeferredOFConnection_init 0 [JStr ''127.0.0.1'', JInt 8888] (JInt 1))
                   \<lparr> currently_blocked := b \<rparr>] \<rparr>"
  by (simp add: channel_simulation_def)

lemma channel_simulation_put:
  "put_connection (JInt 1)
     \<lparr> switch_dpid = 1, ports = Map.empty,
       uuid2connection =
         [[JStr ''127.0.0.1'', JInt 8888] \<mapsto>
            (DeferredOFConnection_init 0 [JStr ''127.0.0.1'', JInt 8888] (JInt 1))
              \<lparr> currently_blocked := b \<rparr>] \<rparr>
     [JStr ''127.0.0.1'', JInt 8888]
     ((DeferredOFConnection_init 0 [JStr ''127.0.0.1'', JInt 8888] (JInt 1))
        \<lparr> currently_blocked := b' \<rparr>)
     (channel_simulation b)
   = channel_simulation b'"
  by (simp add: channel_simulation_def put_connection_def quiet_simulation_def)

text \<open>
  Block then unblock on the connection of switch \<open>1\<close> to \<open>("127.0.0.1", 8888)\<close>;
  either event out of turn raises.
\<close>

theorem control_channel_block_unblock_witness:
  "proceed (event_of (ControlChannelBlock (JInt 1) [JStr ''127.0.0.1'', JInt 8888]))
           (channel_simulation False) = Inr (PyTrue, channel_simulation True) \<and>
   proceed (event_of (ControlChannelUnblock (JInt 1) [JStr ''127.0.0.1'', JInt 8888]))
           (channel_simulation True) = Inr (PyTrue, channel_simulation False) \<and>
   proceed (event_of (ControlChannelUnblock (JInt 1) [JStr ''127.0.0.1'', JInt 8888]))
           (channel_simulation False) = Inl RuntimeError \<and>
   proceed (event_of (ControlChannelBlock (JInt 1) [JStr ''127.0.0.1'', JInt 8888]))
           (channel_simulation True) = Inl RuntimeError"
proof -
  let ?cid = "[JStr ''127.0.0.1'', JInt 8888]"
  let ?eb = "event_of (ControlChannelBlock (JInt 1) ?cid)"
  let ?eu = "event_of (ControlChannelUnblock (JInt 1) ?cid)"
  let ?c = "\<lambda>b. (DeferredOFConnection_init 0 ?cid (JInt 1))\<lparr> currently_blocked := b \<rparr>"
  let ?sw = "\<lambda>b. \<lparr> switch_dpid = 1, ports = Map.empty, uuid2connection = [?cid \<mapsto> ?c b] \<rparr>"
  have t: "proceed ?eb (channel_simulation b) =
           (if currently_blocked (?c b) then Inl RuntimeError
            else Inr (PyTrue, put_connection (JInt 1) (?sw b) ?cid (block (?c b)) (channel_simulation b))) \<and>
         proceed ?eu (channel_simulation b) =
           (if currently_blocked (?c b)
            then Inr (PyTrue, put_connection (JInt 1) (?sw b) ?cid (unblock (?c b)) (channel_simulation b))
            else Inl RuntimeError)" for b
    using control_channel_block_unblock[of "channel_simulation b" "JInt 1" "?sw b" ?cid "?c b" ?eb ?eu]
    by (simp add: channel_simulation_lookup event_of_def)
  have b: "block (?c False) = ?c True" "unblock (?c True) = ?c False"
    by (simp_all add: block_def unblock_def)
  show ?thesis
    using t[of False] t[of True] b
    by (simp add: channel_simulation_put)
qed

text \<open>
  C8 at a \<open>PolicyChange\<close>: \<open>proceed\<close> returns \<open>None\<close>, which the replay loop reads
  as "not yet".
\<close>

theorem PolicyChange_proceed_returns_None:
  "proceed (event_of (PolicyChange (JStr ''acl''))) quiet_simulation
     = Inr (PyNone, quiet_simulation) \<and> \<not> truthy PyNone"
  by (simp add: proceed_def event_of_def)

text \<open>Every other input event returns \<open>True\<close> whenever its \<open>proceed\<close> returns.\<close>

lemma input_events_return_True:
  assumes "is_InputEvent a" and "class_name a \<noteq> ''PolicyChange''"
    and "proceed_attrs tm a sim = Inr (r, sim')"
  shows "r = PyTrue"
  using assms
  by (cases a) (auto simp: bind_err_def Let_def split: sum.splits if_splits json.splits)

subsection \<open>The event DAG\<close>

text \<open>
  C5 at a switch failure \<open>e1\<close> whose \<open>dependent_labels\<close> name its recovery \<open>e2\<close>:
  \<open>remove_events([e1])\<close> raises \<open>TypeError\<close> in \<open>_remove_event\<close>, so neither
  event is taken out of the DAG.
\<close>

theorem remove_events_raises:
  "bind_err
     (EventDag_view
        [\<lparr> label = JStr ''e1'', time = (JInt 1, JInt 0), dependent_labels = [JStr ''e2''],
           attrs = SwitchFailure 1 \<rparr>,
         \<lparr> label = JStr ''e2'', time = (JInt 2, JInt 0), dependent_labels = [],
           attrs = SwitchRecovery 1 \<rparr>])
     (\<lambda>dag. remove_events dag
        [\<lparr> label = JStr ''e1'', time = (JInt 1, JInt 0), dependent_labels = [JStr ''e2''],
           attrs = SwitchFailure 1 \<rparr>])
   = Inl TypeError"
  by (simp add: EventDag_view_def bind_err_def remove_events_def remove_event_def)

text \<open>
  C6 at a DAG of two input events: \<open>peek()\<close> raises \<open>NameError\<close> in the first pass
  of its loop, before any wait time is stored.
\<close>

theorem peek_raises_NameError:
  "bind_err
     (EventDag_view
        [\<lparr> label = JStr ''e1'', time = (JInt 1, JInt 0), dependent_labels = [JStr ''e2''],
           attrs = SwitchFailure 1 \<rparr>,
         \<lparr> label = JStr ''e2'', time = (JInt 2, JInt 0), dependent_labels = [],
           attrs = SwitchRecovery 1 \<rparr>])
     peek
   = Inl NameError"
  by (simp add: EventDag_view_def bind_err_def peek_def as_float_def Let_def)

text \<open>
  With a single input event the loop is not entered and \<open>peek()\<close> returns; what it
  returns is \<open>None\<close>, and the DAG is as before.
\<close>

lemma peek_single_input_event:
  "bind_err (EventDag_view [event_of (SwitchFailure 1)]) peek = Inr ()"
  by (simp add: EventDag_view_def bind_err_def peek_def as_float_def Let_def event_of_def)

end
